theory Spec2Isabelle
  imports Complex_Main "HOL-Library.Sublist"
begin

section \<open>JavaScript values\<close>

text \<open>
  The store keeps plain JavaScript objects. An object is a finite map from property
  names to values, so that the object spread \<^verbatim>\<open>{...a, ...b}\<close> is the map
  override \<open>a ++ b\<close>: a key of \<open>b\<close> wins, also when its value is \<open>undefined\<close>.
  Numbers that are only stored (lengths, diameters, elevations) are reals. The id
  counter and the ids that \<^verbatim>\<open>parseInt\<close> reads are integers: the embedding is
  exact on the safe integers of JavaScript, of magnitude below \<open>2 ^ 53\<close>, and
  says nothing about the rounding of larger numbers. A string is a list of
  characters, and the character number \<open>n\<close> stands for the UTF-16 code unit \<open>n\<close>:
  the strings of the embedding are those of code units up to \<open>0xFF\<close>, and they are
  the strings of the code as they are when every character is ASCII.
\<close>

datatype jsval = JUndefined | JNaN | JNum real | JStr string

type_synonym jsobj = "string \<rightharpoonup> jsval"

text \<open>Spreading \<^verbatim>\<open>undefined\<close> contributes no property.\<close>

definition obj_of :: "jsobj option \<Rightarrow> jsobj" where
  "obj_of ob = (case ob of None \<Rightarrow> Map.empty | Some m \<Rightarrow> m)"

text \<open>The operand test of \<^verbatim>\<open>||\<close>.\<close>

fun truthy :: "jsval \<Rightarrow> bool" where
  "truthy JUndefined = False"
| "truthy JNaN = False"
| "truthy (JNum r) = (r \<noteq> 0)"
| "truthy (JStr s) = (s \<noteq> [])"

subsection \<open>Numbers and strings\<close>

definition digit_char :: "nat \<Rightarrow> char" where
  "digit_char d = ''0123456789'' ! (d mod 10)"

text \<open>The decimal numeral of a template literal \<^verbatim>\<open>`${n}`\<close>, for an integer \<open>n\<close>.\<close>

fun nat_to_string :: "nat \<Rightarrow> string" where
  "nat_to_string n =
     (if n < 10 then [digit_char n] else nat_to_string (n div 10) @ [digit_char (n mod 10)])"

declare nat_to_string.simps [simp del]

definition int_to_string :: "int \<Rightarrow> string" where
  "int_to_string i =
     (if i < 0 then CHR ''-'' # nat_to_string (nat (- i)) else nat_to_string (nat i))"

text \<open>
  \<^verbatim>\<open>parseInt(s)\<close> with no radix: leading white space is skipped, one sign is read,
  a prefix \<^verbatim>\<open>0x\<close> or \<^verbatim>\<open>0X\<close> selects radix 16, and the longest run of digits of
  the radix is the value. No digit at all is \<^verbatim>\<open>NaN\<close>, here \<open>None\<close>. The white space
  of JavaScript up to the code unit \<open>0xFF\<close> is tab, line feed, vertical tab, form
  feed, carriage return, space and the no-break space \<open>0xA0\<close>; its other white
  space (\<open>U+FEFF\<close>, \<open>U+2028\<close>, \<open>U+2029\<close> and the space separators above \<open>0xFF\<close>)
  is not a character of the embedding. The value is the exact one, which is what
  JavaScript returns when it is a safe integer.
\<close>

definition is_space :: "char \<Rightarrow> bool" where
  "is_space c =
     (c \<in> set [CHR 0x09, CHR 0x0A, CHR 0x0B, CHR 0x0C, CHR 0x0D, CHR 0x20, CHR 0xA0])"

definition digit_val :: "char \<Rightarrow> nat option" where
  "digit_val c =
     (let n = (of_char c :: nat) in
      if 48 \<le> n \<and> n \<le> 57 then Some (n - 48)
      else if 97 \<le> n \<and> n \<le> 122 then Some (n - 87)
      else if 65 \<le> n \<and> n \<le> 90 then Some (n - 55)
      else None)"

definition is_digit :: "nat \<Rightarrow> char \<Rightarrow> bool" where
  "is_digit R c = (case digit_val c of None \<Rightarrow> False | Some d \<Rightarrow> d < R)"

definition digits_value :: "nat \<Rightarrow> string \<Rightarrow> nat" where
  "digits_value R z =
     foldl (\<lambda>acc c. acc * R + (case digit_val c of None \<Rightarrow> 0 | Some d \<Rightarrow> d)) 0 z"

definition parseInt :: "string \<Rightarrow> int option" where
  "parseInt s =
     (let s1 = dropWhile is_space s;
          neg = (take 1 s1 = ''-'');
          s2 = (if take 1 s1 = ''+'' \<or> take 1 s1 = ''-'' then drop 1 s1 else s1);
          hex = (take 2 s2 = ''0x'' \<or> take 2 s2 = ''0X'');
          R = (if hex then 16 else 10);
          s3 = (if hex then drop 2 s2 else s2);
          z = takeWhile (is_digit R) s3
      in if z = [] then None
         else Some ((if neg then - 1 else 1) * int (digits_value R z)))"

text \<open>\<^verbatim>\<open>parseInt(id) || 0\<close>: \<^verbatim>\<open>NaN\<close> and zero are falsy, so both give 0.\<close>

definition parseInt_or_0 :: "string \<Rightarrow> int" where
  "parseInt_or_0 s = (case parseInt s of None \<Rightarrow> 0 | Some n \<Rightarrow> if n = 0 then 0 else n)"

text \<open>
  Where the embedding of \<^verbatim>\<open>parseInt(id) || 0\<close> is the code: on the ids that are
  ASCII strings and that are read as a safe integer.
\<close>

definition ascii :: "string \<Rightarrow> bool" where
  "ascii s = (\<forall>c \<in> set s. (of_char c :: nat) < 128)"

definition safe_integer :: "int \<Rightarrow> bool" where
  "safe_integer n = (- (2 ^ 53) < n \<and> n < 2 ^ 53)"

definition exact_id :: "string \<Rightarrow> bool" where
  "exact_id s = (ascii s \<and> safe_integer (parseInt_or_0 s))"

section \<open>The data model of the store\<close>

text \<open>
  \<^verbatim>\<open>WhamoNode\<close> and \<^verbatim>\<open>WhamoEdge\<close> are the diagram library's node and edge
  objects; the records hold the properties the store reads or writes. An optional
  property is an \<open>option\<close>. The \<^verbatim>\<open>data\<close> bags (\<^verbatim>\<open>NodeData\<close>, \<^verbatim>\<open>EdgeData\<close> and
  their \<^verbatim>\<open>Partial\<close> patches) and the style objects are objects as above.
\<close>

record WhamoNode =
  node_id :: string
  node_type :: "string option"
  node_position :: "real \<times> real"
  node_data :: jsobj

datatype EdgeMarkerType = MarkerName string | EdgeMarker jsobj

record WhamoEdge =
  edge_id :: string
  edge_type :: "string option"
  edge_source :: string
  edge_target :: string
  edge_sourceHandle :: "string option"
  edge_targetHandle :: "string option"
  edge_style :: "jsobj option"
  edge_markerEnd :: "EdgeMarkerType option"
  edge_data :: "jsobj option"

record Connection =
  conn_source :: string
  conn_target :: string
  conn_sourceHandle :: "string option"
  conn_targetHandle :: "string option"

datatype ElementKind = NodeKind | EdgeKind

text \<open>
  The state of the store, together with the module variable \<^verbatim>\<open>idCounter\<close> that
  \<^verbatim>\<open>getId\<close> advances.
\<close>

record NetworkState =
  nodes :: "WhamoNode list"
  edges :: "WhamoEdge list"
  selectedElementId :: "string option"
  selectedElementType :: "ElementKind option"
  idCounter :: int

definition initialState :: NetworkState where
  "initialState =
     \<lparr>nodes = [], edges = [], selectedElementId = None, selectedElementType = None,
      idCounter = 1\<rparr>"

text \<open>\<^verbatim>\<open>const getId = () => `${idCounter++}`\<close>\<close>

definition getId :: "NetworkState \<Rightarrow> string \<times> NetworkState" where
  "getId st = (int_to_string (idCounter st), st\<lparr>idCounter := idCounter st + 1\<rparr>)"

section \<open>What the store takes from the diagram library\<close>

text \<open>
  Modelled from the spec: \<^verbatim>\<open>addEdge\<close> of the diagram library, whose code is not
  part of the repository. The specification says that a connection is appended to
  the edge collection, with no check that source and target differ or that the
  connection is new.
\<close>

definition addEdge :: "WhamoEdge \<Rightarrow> WhamoEdge list \<Rightarrow> WhamoEdge list" where
  "addEdge edge es = es @ [edge]"

text \<open>
  Modelled from the spec: the member \<^verbatim>\<open>MarkerType.ArrowClosed\<close> of the library's
  enumeration of arrow markers, a string constant.
\<close>

definition MarkerType_ArrowClosed :: jsval where
  "MarkerType_ArrowClosed = JStr ''arrowclosed''"

section \<open>The actions of the store\<close>

text \<open>
  Each action takes the state and returns the new one. \<^verbatim>\<open>set\<close> merges the given
  properties into the state, which is a record update. Two versions of the store
  are in the repository: \<^verbatim>\<open>client/src/lib/store.ts\<close> (suffix \<open>_store\<close> where the
  versions differ) and a later one with \<^verbatim>\<open>deleteElement\<close> (suffix \<open>_part000\<close>).
  \<^verbatim>\<open>addNode\<close>, \<^verbatim>\<open>updateNodeData\<close>, \<^verbatim>\<open>selectElement\<close>, \<^verbatim>\<open>loadNetwork\<close> and
  \<^verbatim>\<open>clearNetwork\<close> are the same text in both.
\<close>

text \<open>
  \<^verbatim>\<open>onNodesChange\<close> and \<^verbatim>\<open>onEdgesChange\<close> replace a collection by what the
  library's \<^verbatim>\<open>applyNodeChanges\<close> and \<^verbatim>\<open>applyEdgeChanges\<close> return, which are
  parameters here.
\<close>

definition onNodesChange ::
  "('c \<Rightarrow> WhamoNode list \<Rightarrow> WhamoNode list) \<Rightarrow> 'c \<Rightarrow> NetworkState \<Rightarrow> NetworkState" where
  "onNodesChange applyNodeChanges changes st =
     st\<lparr>nodes := applyNodeChanges changes (nodes st)\<rparr>"

definition onEdgesChange ::
  "('c \<Rightarrow> WhamoEdge list \<Rightarrow> WhamoEdge list) \<Rightarrow> 'c \<Rightarrow> NetworkState \<Rightarrow> NetworkState" where
  "onEdgesChange applyEdgeChanges changes st =
     st\<lparr>edges := applyEdgeChanges changes (edges st)\<rparr>"

definition defaultEdgeData :: "string \<Rightarrow> jsobj" where
  "defaultEdgeData label =
     [''label'' \<mapsto> JStr label, ''type'' \<mapsto> JStr ''conduit'', ''length'' \<mapsto> JNum 1000,
      ''diameter'' \<mapsto> JNum 0.5, ''celerity'' \<mapsto> JNum 1000, ''friction'' \<mapsto> JNum 0.02,
      ''numSegments'' \<mapsto> JNum 1]"

definition onConnect_store :: "Connection \<Rightarrow> NetworkState \<Rightarrow> NetworkState" where
  "onConnect_store connection st =
     (let (ident, st1) = getId st in
      st1\<lparr>edges :=
        addEdge
          \<lparr>edge_id = ident,
           edge_type = Some ''conduit'',
           edge_source = conn_source connection,
           edge_target = conn_target connection,
           edge_sourceHandle = conn_sourceHandle connection,
           edge_targetHandle = conn_targetHandle connection,
           edge_style = Some [''stroke'' \<mapsto> JStr ''#3b82f6'', ''strokeWidth'' \<mapsto> JNum 2],
           edge_markerEnd = Some (EdgeMarker
             [''type'' \<mapsto> MarkerType_ArrowClosed, ''color'' \<mapsto> JStr ''#3b82f6'']),
           edge_data = Some (defaultEdgeData (''C-'' @ ident))\<rparr>
          (edges st1)\<rparr>)"

text \<open>\<^verbatim>\<open>e.data?.type === 'conduit'\<close>\<close>

definition is_conduit :: "WhamoEdge \<Rightarrow> bool" where
  "is_conduit e =
     (case edge_data e of None \<Rightarrow> False | Some d \<Rightarrow> d ''type'' = Some (JStr ''conduit''))"

definition onConnect_part000 :: "Connection \<Rightarrow> NetworkState \<Rightarrow> NetworkState" where
  "onConnect_part000 connection st =
     (let (ident, st1) = getId st;
          conduitCount = length (filter is_conduit (edges st1));
          connectionLabel = ''C'' @ nat_to_string (conduitCount + 1)
      in st1\<lparr>edges :=
        addEdge
          \<lparr>edge_id = ident,
           edge_type = Some ''connection'',
           edge_source = conn_source connection,
           edge_target = conn_target connection,
           edge_sourceHandle = conn_sourceHandle connection,
           edge_targetHandle = conn_targetHandle connection,
           edge_style = Some [''stroke'' \<mapsto> JStr ''#64748b'', ''strokeWidth'' \<mapsto> JNum 2],
           edge_markerEnd = Some (EdgeMarker
             [''type'' \<mapsto> MarkerType_ArrowClosed, ''color'' \<mapsto> JStr ''#64748b'']),
           edge_data = Some (defaultEdgeData connectionLabel)\<rparr>
          (edges st1)\<rparr>)"

text \<open>
  \<^verbatim>\<open>addNode\<close>: the \<^verbatim>\<open>switch\<close> has no default, so a type outside the five keeps
  the initial data. \<^verbatim>\<open>nodeNumber\<close> is \<^verbatim>\<open>parseInt(id)\<close>.
\<close>

definition number_val :: "int option \<Rightarrow> jsval" where
  "number_val n = (case n of None \<Rightarrow> JNaN | Some i \<Rightarrow> JNum (of_int i))"

definition number_to_string :: "int option \<Rightarrow> string" where
  "number_to_string n = (case n of None \<Rightarrow> ''NaN'' | Some i \<Rightarrow> int_to_string i)"

definition addNode :: "string \<Rightarrow> real \<times> real \<Rightarrow> NetworkState \<Rightarrow> NetworkState" where
  "addNode type position st =
     (let (ident, st1) = getId st;
          initialData = [''label'' \<mapsto> JStr [], ''type'' \<mapsto> JStr type];
          nodeNumber = parseInt ident;
          initialData' =
            (if type = ''reservoir'' then
               initialData ++ [''label'' \<mapsto> JStr ''HW'', ''nodeNumber'' \<mapsto> number_val nodeNumber,
                 ''elevation'' \<mapsto> JNum 100]
             else if type = ''node'' then
               initialData ++ [''label'' \<mapsto> JStr (''Node '' @ number_to_string nodeNumber),
                 ''nodeNumber'' \<mapsto> number_val nodeNumber, ''elevation'' \<mapsto> JNum 50]
             else if type = ''junction'' then
               initialData ++ [''label'' \<mapsto> JStr (''Node '' @ number_to_string nodeNumber),
                 ''nodeNumber'' \<mapsto> number_val nodeNumber, ''elevation'' \<mapsto> JNum 50]
             else if type = ''surgeTank'' then
               initialData ++ [''label'' \<mapsto> JStr ''ST'', ''nodeNumber'' \<mapsto> number_val nodeNumber,
                 ''topElevation'' \<mapsto> JNum 120, ''bottomElevation'' \<mapsto> JNum 80,
                 ''diameter'' \<mapsto> JNum 5, ''celerity'' \<mapsto> JNum 1000, ''friction'' \<mapsto> JNum 0.01]
             else if type = ''flowBoundary'' then
               initialData ++ [''label'' \<mapsto> JStr (''FB'' @ ident),
                 ''nodeNumber'' \<mapsto> number_val nodeNumber, ''scheduleNumber'' \<mapsto> JNum 1]
             else initialData);
          newNode = \<lparr>node_id = ident, node_type = Some type, node_position = position,
            node_data = initialData'\<rparr>
      in st1\<lparr>nodes := nodes st1 @ [newNode]\<rparr>)"

definition updateNodeData :: "string \<Rightarrow> jsobj \<Rightarrow> NetworkState \<Rightarrow> NetworkState" where
  "updateNodeData ident data st =
     st\<lparr>nodes :=
        map (\<lambda>node. if node_id node = ident then node\<lparr>node_data := node_data node ++ data\<rparr>
                    else node)
          (nodes st)\<rparr>"

definition updateEdge_store :: "jsobj \<Rightarrow> WhamoEdge \<Rightarrow> WhamoEdge" where
  "updateEdge_store data edge =
     (let newData = obj_of (edge_data edge) ++ data;
          (style, markerEnd) =
            (if data ''type'' = Some (JStr ''conduit'') then
               (Some [''stroke'' \<mapsto> JStr ''#3b82f6'', ''strokeWidth'' \<mapsto> JNum 2],
                Some (EdgeMarker
                  [''type'' \<mapsto> MarkerType_ArrowClosed, ''color'' \<mapsto> JStr ''#3b82f6'']))
             else if data ''type'' = Some (JStr ''dummy'') then
               (Some [''stroke'' \<mapsto> JStr ''#94a3b8'', ''strokeWidth'' \<mapsto> JNum 2,
                  ''strokeDasharray'' \<mapsto> JStr ''5,5''],
                Some (EdgeMarker
                  [''type'' \<mapsto> MarkerType_ArrowClosed, ''color'' \<mapsto> JStr ''#94a3b8'']))
             else (edge_style edge, edge_markerEnd edge))
      in edge\<lparr>edge_data := Some newData, edge_style := style, edge_markerEnd := markerEnd\<rparr>)"

definition updateEdgeData_store :: "string \<Rightarrow> jsobj \<Rightarrow> NetworkState \<Rightarrow> NetworkState" where
  "updateEdgeData_store ident data st =
     st\<lparr>edges :=
        map (\<lambda>edge. if edge_id edge = ident then updateEdge_store data edge else edge)
          (edges st)\<rparr>"

text \<open>
  In the later version the body of \<^verbatim>\<open>updateEdgeData\<close> is a comment only
  (\<^verbatim>\<open>// ... implementation\<close>): the action returns without a call of \<^verbatim>\<open>set\<close>.
\<close>

definition updateEdgeData_part000 :: "string \<Rightarrow> jsobj \<Rightarrow> NetworkState \<Rightarrow> NetworkState" where
  "updateEdgeData_part000 ident data st = st"

definition deleteElement :: "string \<Rightarrow> ElementKind \<Rightarrow> NetworkState \<Rightarrow> NetworkState" where
  "deleteElement ident type st =
     (if type = NodeKind then
        (let remainingNodes = filter (\<lambda>n. node_id n \<noteq> ident) (nodes st);
             remainingEdges =
               filter (\<lambda>e. edge_source e \<noteq> ident \<and> edge_target e \<noteq> ident) (edges st)
         in st\<lparr>nodes := remainingNodes,
               edges := remainingEdges,
               selectedElementId :=
                 (if selectedElementId st = Some ident then None else selectedElementId st),
               selectedElementType :=
                 (if selectedElementId st = Some ident then None else selectedElementType st)\<rparr>)
      else
        st\<lparr>edges := filter (\<lambda>e. edge_id e \<noteq> ident) (edges st),
           selectedElementId :=
             (if selectedElementId st = Some ident then None else selectedElementId st),
           selectedElementType :=
             (if selectedElementId st = Some ident then None else selectedElementType st)\<rparr>)"

definition selectElement ::
  "string option \<Rightarrow> ElementKind option \<Rightarrow> NetworkState \<Rightarrow> NetworkState" where
  "selectElement ident type st = st\<lparr>selectedElementId := ident, selectedElementType := type\<rparr>"

text \<open>\<^verbatim>\<open>Math.max(...ns, ...es, 0)\<close>: the greatest argument, the last of which is 0.\<close>

definition Math_max_0 :: "int list \<Rightarrow> int" where
  "Math_max_0 xs = foldr max xs 0"

text \<open>
  \<^verbatim>\<open>loadNetwork\<close>. The maximum and \<^verbatim>\<open>maxId + 1\<close> are computed on integers,
  as the code computes them when every id is read as a safe integer.
\<close>

definition loadNetwork ::
  "WhamoNode list \<Rightarrow> WhamoEdge list \<Rightarrow> NetworkState \<Rightarrow> NetworkState" where
  "loadNetwork ns es st =
     (let maxId =
        Math_max_0
          (map (\<lambda>n. parseInt_or_0 (node_id n)) ns @ map (\<lambda>e. parseInt_or_0 (edge_id e)) es)
      in st\<lparr>idCounter := maxId + 1\<rparr>
           \<lparr>nodes := ns, edges := es, selectedElementId := None,
            selectedElementType := None\<rparr>)"

definition clearNetwork :: "NetworkState \<Rightarrow> NetworkState" where
  "clearNetwork st =
     (st\<lparr>nodes := [], edges := [], selectedElementId := None, selectedElementType := None\<rparr>)
       \<lparr>idCounter := 1\<rparr>"

text \<open>The engineering attributes that the specification documents for a new connection.\<close>

definition documented_defaults :: "WhamoEdge \<Rightarrow> bool" where
  "documented_defaults e =
     (obj_of (edge_data e) ''length'' = Some (JNum 1000) \<and>
      obj_of (edge_data e) ''diameter'' = Some (JNum 0.5) \<and>
      obj_of (edge_data e) ''celerity'' = Some (JNum 1000) \<and>
      obj_of (edge_data e) ''friction'' = Some (JNum 0.02) \<and>
      obj_of (edge_data e) ''numSegments'' = Some (JNum 1))"

section \<open>Sequences of actions\<close>

text \<open>
  The states the store can be in: the initial state, and what an action makes of
  such a state. \<^verbatim>\<open>deleteElement\<close> exists in the later version only, and each
  version has its own \<^verbatim>\<open>onConnect\<close> and \<^verbatim>\<open>updateEdgeData\<close>. The first parameter
  says which pairs of arguments \<^verbatim>\<open>selectElement\<close> is called with. The library's
  change records stay abstract.
\<close>

datatype StoreVersion = StoreTs | Part000

typedecl NodeChange

typedecl EdgeChange

definition any_arguments :: "string option \<Rightarrow> ElementKind option \<Rightarrow> bool" where
  "any_arguments ident type = True"

definition both_or_neither :: "string option \<Rightarrow> ElementKind option \<Rightarrow> bool" where
  "both_or_neither ident type = ((ident = None) = (type = None))"

inductive reachable ::
  "(string option \<Rightarrow> ElementKind option \<Rightarrow> bool) \<Rightarrow> StoreVersion \<Rightarrow> NetworkState \<Rightarrow> bool"
  for sel :: "string option \<Rightarrow> ElementKind option \<Rightarrow> bool" and v :: StoreVersion
where
  reach_init: "reachable sel v initialState"
| reach_onNodesChange:
    "reachable sel v st \<Longrightarrow>
     reachable sel v
       (onNodesChange (f :: NodeChange list \<Rightarrow> WhamoNode list \<Rightarrow> WhamoNode list) cs st)"
| reach_onEdgesChange:
    "reachable sel v st \<Longrightarrow>
     reachable sel v
       (onEdgesChange (g :: EdgeChange list \<Rightarrow> WhamoEdge list \<Rightarrow> WhamoEdge list) ds st)"
| reach_onConnect_store:
    "reachable sel v st \<Longrightarrow> v = StoreTs \<Longrightarrow> reachable sel v (onConnect_store c st)"
| reach_onConnect_part000:
    "reachable sel v st \<Longrightarrow> v = Part000 \<Longrightarrow> reachable sel v (onConnect_part000 c st)"
| reach_addNode: "reachable sel v st \<Longrightarrow> reachable sel v (addNode type position st)"
| reach_updateNodeData:
    "reachable sel v st \<Longrightarrow> reachable sel v (updateNodeData ident data st)"
| reach_updateEdgeData_store:
    "reachable sel v st \<Longrightarrow> v = StoreTs \<Longrightarrow>
     reachable sel v (updateEdgeData_store ident data st)"
| reach_updateEdgeData_part000:
    "reachable sel v st \<Longrightarrow> v = Part000 \<Longrightarrow>
     reachable sel v (updateEdgeData_part000 ident data st)"
| reach_deleteElement:
    "reachable sel v st \<Longrightarrow> v = Part000 \<Longrightarrow> reachable sel v (deleteElement ident kind st)"
| reach_selectElement:
    "reachable sel v st \<Longrightarrow> sel sid skind \<Longrightarrow> reachable sel v (selectElement sid skind st)"
| reach_loadNetwork: "reachable sel v st \<Longrightarrow> reachable sel v (loadNetwork ns es st)"
| reach_clearNetwork: "reachable sel v st \<Longrightarrow> reachable sel v (clearNetwork st)"

section \<open>The id counter in the words of the specification\<close>

text \<open>
  After \<^verbatim>\<open>loadNetwork\<close> the specification puts the counter one above the greatest
  id of the two collections, where an id that is not a number counts as 0.
\<close>

definition spec_idCounter :: "WhamoNode list \<Rightarrow> WhamoEdge list \<Rightarrow> int" where
  "spec_idCounter ns es =
     Max (set (map (\<lambda>n. parseInt_or_0 (node_id n)) ns @
               map (\<lambda>e. parseInt_or_0 (edge_id e)) es)) + 1"

text \<open>
  An id is not numeric when, after its leading white space and one sign, it is
  empty or starts with a character that is no decimal digit.
\<close>

definition non_numeric :: "string \<Rightarrow> bool" where
  "non_numeric s =
     (let t = dropWhile is_space s;
          u = (if take 1 t = ''+'' \<or> take 1 t = ''-'' then drop 1 t else t)
      in u = [] \<or> hd u \<notin> set ''0123456789'')"

section \<open>Calling an action\<close>





section \<open>The identity of the collections and of their elements\<close>

text \<open>
  The state holds references to its two arrays, and an array holds references to
  its elements. \<^verbatim>\<open>Array.prototype.map\<close> never returns the array it is called
  on: it allocates a new array, calls the callback on the elements in order, and
  \<^verbatim>\<open>set\<close> stores the reference to the new array. The callback of
  \<^verbatim>\<open>updateNodeData\<close> and of \<^verbatim>\<open>updateEdgeData\<close> returns the element it is given,
  which is the same reference, when the id is another one, and a newly created
  object otherwise. The heap maps references to objects and to arrays; the
  references from \<open>next_ref\<close> on are free.
\<close>

type_synonym ref = nat

record HeapState =
  node_objs :: "ref \<Rightarrow> WhamoNode"
  edge_objs :: "ref \<Rightarrow> WhamoEdge"
  node_arrays :: "ref \<Rightarrow> ref list"
  edge_arrays :: "ref \<Rightarrow> ref list"
  next_ref :: ref
  nodes_ref :: ref
  edges_ref :: ref

text \<open>
  \<^verbatim>\<open>xs.map(x => hit(x) ? upd(x) : x)\<close> on references: the references that the
  callback returns, the objects after the call and the next free reference.
\<close>

fun map_alloc ::
  "('a \<Rightarrow> bool) \<Rightarrow> ('a \<Rightarrow> 'a) \<Rightarrow> ref list \<Rightarrow> (ref \<Rightarrow> 'a) \<Rightarrow> ref \<Rightarrow> ref list \<times> (ref \<Rightarrow> 'a) \<times> ref"
where
  "map_alloc hit upd [] objs nxt = ([], objs, nxt)"
| "map_alloc hit upd (r # rs) objs nxt =
     (if hit (objs r) then
        (let (rs', objs', nxt') = map_alloc hit upd rs (objs(nxt := upd (objs r))) (nxt + 1)
         in (nxt # rs', objs', nxt'))
      else
        (let (rs', objs', nxt') = map_alloc hit upd rs objs nxt
         in (r # rs', objs', nxt')))"

definition updateNodeData_heap :: "string \<Rightarrow> jsobj \<Rightarrow> HeapState \<Rightarrow> HeapState" where
  "updateNodeData_heap ident data h =
     (let (rs, objs, nxt) =
        map_alloc (\<lambda>node. node_id node = ident)
          (\<lambda>node. node\<lparr>node_data := node_data node ++ data\<rparr>)
          (node_arrays h (nodes_ref h)) (node_objs h) (next_ref h)
      in h\<lparr>node_objs := objs, node_arrays := (node_arrays h)(nxt := rs),
            next_ref := nxt + 1, nodes_ref := nxt\<rparr>)"

definition updateEdgeData_store_heap :: "string \<Rightarrow> jsobj \<Rightarrow> HeapState \<Rightarrow> HeapState" where
  "updateEdgeData_store_heap ident data h =
     (let (rs, objs, nxt) =
        map_alloc (\<lambda>edge. edge_id edge = ident) (updateEdge_store data)
          (edge_arrays h (edges_ref h)) (edge_objs h) (next_ref h)
      in h\<lparr>edge_objs := objs, edge_arrays := (edge_arrays h)(nxt := rs),
            next_ref := nxt + 1, edges_ref := nxt\<rparr>)"

text \<open>The collections of values that a heap holds.\<close>

definition nodes_of :: "HeapState \<Rightarrow> WhamoNode list" where
  "nodes_of h = map (node_objs h) (node_arrays h (nodes_ref h))"

definition edges_of :: "HeapState \<Rightarrow> WhamoEdge list" where
  "edges_of h = map (edge_objs h) (edge_arrays h (edges_ref h))"

text \<open>
  A heap is well formed when the two arrays of the state and their elements
  are allocated.
\<close>

definition heap_ok :: "HeapState \<Rightarrow> bool" where
  "heap_ok h =
     (nodes_ref h < next_ref h \<and> edges_ref h < next_ref h \<and>
      (\<forall>r \<in> set (node_arrays h (nodes_ref h)). r < next_ref h) \<and>
      (\<forall>r \<in> set (edge_arrays h (edges_ref h)). r < next_ref h))"

section \<open>The connection edge renderer\<close>

text \<open>
  \<^verbatim>\<open>ConnectionEdge\<close> maps its properties to a marker definition and a base edge.
  The record \<open>Rendered\<close> holds what the returned element tree depends on. The
  library's \<^verbatim>\<open>getBezierPath\<close> is a parameter, of which the component takes the
  path. The angle that the component computes is not used in what it returns,
  and is left out.
\<close>

record EdgeProps =
  props_id :: string
  sourceX :: real
  sourceY :: real
  targetX :: real
  targetY :: real
  sourcePosition :: string
  targetPosition :: string
  props_style :: "jsobj option"
  props_markerEnd :: "string option"

record Rendered =
  marker_id :: string
  marker_path_d :: string
  marker_path_fill :: jsval
  baseEdge_path :: string
  baseEdge_markerEnd :: string
  baseEdge_style :: jsobj

text \<open>\<^verbatim>\<open>a.k || d\<close> for a property \<open>k\<close> of an object.\<close>

definition prop_or :: "jsobj \<Rightarrow> string \<Rightarrow> jsval \<Rightarrow> jsval" where
  "prop_or a k d = (case a k of None \<Rightarrow> d | Some w \<Rightarrow> if truthy w then w else d)"

definition ConnectionEdge ::
  "(real \<Rightarrow> real \<Rightarrow> string \<Rightarrow> real \<Rightarrow> real \<Rightarrow> string \<Rightarrow> string) \<Rightarrow> EdgeProps \<Rightarrow> Rendered" where
  "ConnectionEdge getBezierPath props =
     (let style = obj_of (props_style props);
          edgePath =
            getBezierPath (sourceX props) (sourceY props) (sourcePosition props)
              (targetX props) (targetY props) (targetPosition props)
      in \<lparr>marker_id = ''arrow-'' @ props_id props,
          marker_path_d = ''M0,0 L6,3 L0,6 z'',
          marker_path_fill = prop_or style ''stroke'' (JStr ''#3b82f6''),
          baseEdge_path = edgePath,
          baseEdge_markerEnd = ''url(#arrow-'' @ props_id props @ '')'',
          baseEdge_style = style ++ [''strokeWidth'' \<mapsto> JNum 2]\<rparr>)"

section \<open>A small network\<close>

text \<open>Three nodes in a ring of three conduits, as the store builds them.\<close>

definition example_node :: "string \<Rightarrow> WhamoNode" where
  "example_node i =
     \<lparr>node_id = i, node_type = Some ''node'', node_position = (0, 0),
      node_data = [''label'' \<mapsto> JStr (''Node '' @ i), ''type'' \<mapsto> JStr ''node'']\<rparr>"

definition example_edge :: "string \<Rightarrow> string \<Rightarrow> string \<Rightarrow> WhamoEdge" where
  "example_edge i a b =
     \<lparr>edge_id = i, edge_type = Some ''conduit'', edge_source = a, edge_target = b,
      edge_sourceHandle = None, edge_targetHandle = None,
      edge_style = Some [''stroke'' \<mapsto> JStr ''#3b82f6'', ''strokeWidth'' \<mapsto> JNum 2],
      edge_markerEnd = Some (EdgeMarker
        [''type'' \<mapsto> MarkerType_ArrowClosed, ''color'' \<mapsto> JStr ''#3b82f6'']),
      edge_data = Some (defaultEdgeData (''C-'' @ i))\<rparr>"

definition example_state :: NetworkState where
  "example_state =
     \<lparr>nodes = [example_node ''1'', example_node ''2'', example_node ''3''],
      edges = [example_edge ''4'' ''1'' ''2'', example_edge ''5'' ''2'' ''3'',
        example_edge ''6'' ''3'' ''1''],
      selectedElementId = None, selectedElementType = None, idCounter = 7\<rparr>"


definition example_props :: "jsobj option \<Rightarrow> EdgeProps" where
  "example_props style =
     \<lparr>props_id = ''4'', sourceX = 0, sourceY = 0, targetX = 100, targetY = 50,
      sourcePosition = ''right'', targetPosition = ''left'', props_style = style,
      props_markerEnd = None\<rparr>"

text \<open>
  A loaded network in which a node and an edge have the same id, with the node
  selected.
\<close>

definition clash_state :: NetworkState where
  "clash_state =
     selectElement (Some ''1'') (Some NodeKind)
       (loadNetwork [example_node ''1'', example_node ''2'', example_node ''3'']
          [example_edge ''1'' ''2'' ''3''] initialState)"

section \<open>Properties\<close>

subsection \<open>What each action does to the fields of the state\<close>

lemma int_to_string_1: "int_to_string 1 = ''1''"
  by (simp add: int_to_string_def nat_to_string.simps digit_char_def)

lemma int_to_string_8: "int_to_string 8 = ''8''"
  by (simp add: int_to_string_def nat_to_string.simps digit_char_def)

lemma node_id_addNode:
  "map node_id (nodes (addNode type position st)) =
     map node_id (nodes st) @ [int_to_string (idCounter st)]"
  by (simp add: addNode_def getId_def Let_def)

lemma deleteElement_fields:
  "nodes (deleteElement n NodeKind st) = filter (\<lambda>x. node_id x \<noteq> n) (nodes st)"
  "edges (deleteElement n NodeKind st) =
     filter (\<lambda>e. edge_source e \<noteq> n \<and> edge_target e \<noteq> n) (edges st)"
  "nodes (deleteElement n EdgeKind st) = nodes st"
  "edges (deleteElement n EdgeKind st) = filter (\<lambda>e. edge_id e \<noteq> n) (edges st)"
  "selectedElementId (deleteElement n k st) =
     (if selectedElementId st = Some n then None else selectedElementId st)"
  "selectedElementType (deleteElement n k st) =
     (if selectedElementId st = Some n then None else selectedElementType st)"
  "idCounter (deleteElement n k st) = idCounter st"
  by (simp_all add: deleteElement_def Let_def)

lemma example_fields:
  "nodes example_state = [example_node ''1'', example_node ''2'', example_node ''3'']"
  "edges example_state =
     [example_edge ''4'' ''1'' ''2'', example_edge ''5'' ''2'' ''3'', example_edge ''6'' ''3'' ''1'']"
  "selectedElementId example_state = None"
  "selectedElementType example_state = None"
  "idCounter example_state = 7"
  by (simp_all add: example_state_def)

lemma example_node_id [simp]: "node_id (example_node i) = i"
  by (simp add: example_node_def)

lemma example_edge_ends [simp]:
  "edge_id (example_edge i a b) = i"
  "edge_source (example_edge i a b) = a"
  "edge_target (example_edge i a b) = b"
  by (simp_all add: example_edge_def)

lemma edge_id_unique:
  assumes d: "distinct (map edge_id es)" and m: "e' \<in> set es" and m': "e \<in> set es"
    and q: "edge_id e' = edge_id e"
  shows "e' = e"
proof -
  from d have "inj_on edge_id (set es)" by (simp add: distinct_map)
  from inj_onD [OF this q m m'] show ?thesis .
qed

subsection \<open>Deleting a node\<close>

text \<open>
  C1. \<^verbatim>\<open>deleteElement(n, 'node')\<close> keeps exactly the nodes whose id is not \<open>n\<close> and
  exactly the edges that neither start nor end at \<open>n\<close>, each as it was and in the
  order it had: no node with id \<open>n\<close> and no edge at \<open>n\<close> is left, every other node
  and edge is still there, both collections are subsequences of the old ones, and
  when \<open>n\<close> is the id of a node the node collection gets shorter. The id counter
  is not touched.
\<close>

theorem deleteElement_node_cascade:
  "nodes (deleteElement n NodeKind st) = filter (\<lambda>x. node_id x \<noteq> n) (nodes st) \<and>
   edges (deleteElement n NodeKind st) =
     filter (\<lambda>e. edge_source e \<noteq> n \<and> edge_target e \<noteq> n) (edges st) \<and>
   n \<notin> node_id ` set (nodes (deleteElement n NodeKind st)) \<and>
   (\<forall>e \<in> set (edges (deleteElement n NodeKind st)). edge_source e \<noteq> n \<and> edge_target e \<noteq> n) \<and>
   (\<forall>x \<in> set (nodes st). node_id x \<noteq> n \<longrightarrow> x \<in> set (nodes (deleteElement n NodeKind st))) \<and>
   (\<forall>e \<in> set (edges st). edge_source e \<noteq> n \<and> edge_target e \<noteq> n \<longrightarrow>
      e \<in> set (edges (deleteElement n NodeKind st))) \<and>
   subseq (nodes (deleteElement n NodeKind st)) (nodes st) \<and>
   subseq (edges (deleteElement n NodeKind st)) (edges st) \<and>
   idCounter (deleteElement n NodeKind st) = idCounter st \<and>
   (n \<in> node_id ` set (nodes st) \<longrightarrow>
      length (nodes (deleteElement n NodeKind st)) < length (nodes st))"
proof -
  have shorter: "length (filter (\<lambda>x. node_id x \<noteq> n) (nodes st)) < length (nodes st)"
    if "n \<in> node_id ` set (nodes st)"
  proof -
    from that obtain x where "x \<in> set (nodes st)" "\<not> node_id x \<noteq> n" by auto
    then show ?thesis by (rule length_filter_less)
  qed
  have absent: "n \<notin> node_id ` set (filter (\<lambda>x. node_id x \<noteq> n) (nodes st))"
    by auto
  show ?thesis
    unfolding deleteElement_fields using shorter absent by simp
qed

theorem deleteElement_node_cascade_witness:
  "''2'' \<in> node_id ` set (nodes example_state) \<and>
   nodes (deleteElement ''2'' NodeKind example_state) = [example_node ''1'', example_node ''3''] \<and>
   edges (deleteElement ''2'' NodeKind example_state) = [example_edge ''6'' ''3'' ''1''] \<and>
   length (nodes (deleteElement ''2'' NodeKind example_state)) < length (nodes example_state)"
  using deleteElement_node_cascade [of "''2''" example_state]
  by (simp add: example_fields)

text \<open>
  C10. When the selected element is an edge \<open>e\<close> that starts or ends at the node
  \<open>n\<close>, and the id of \<open>e\<close> is not \<open>n\<close>, \<^verbatim>\<open>deleteElement(n, 'node')\<close> removes \<open>e\<close>
  with the node and leaves both selection fields as they were: the selection
  names an edge that is gone (no edge has its id any more, when the ids of the
  edges are distinct).
\<close>

theorem deleteElement_cascade_keeps_selection:
  assumes "selectedElementId st = Some i" and "selectedElementType st = Some EdgeKind"
    and "e \<in> set (edges st)" and "edge_id e = i"
    and "edge_source e = n \<or> edge_target e = n" and "i \<noteq> n"
  shows "e \<notin> set (edges (deleteElement n NodeKind st)) \<and>
    selectedElementId (deleteElement n NodeKind st) = Some i \<and>
    selectedElementType (deleteElement n NodeKind st) = Some EdgeKind \<and>
    (distinct (map edge_id (edges st)) \<longrightarrow>
       i \<notin> edge_id ` set (edges (deleteElement n NodeKind st)))"
proof -
  have gone: "e \<notin> set (edges (deleteElement n NodeKind st))"
    using assms(5) by (auto simp: deleteElement_fields)
  have sel: "selectedElementId (deleteElement n NodeKind st) = Some i"
    "selectedElementType (deleteElement n NodeKind st) = Some EdgeKind"
    using assms(1,2,6) by (simp_all add: deleteElement_fields)
  have "i \<notin> edge_id ` set (edges (deleteElement n NodeKind st))"
    if d: "distinct (map edge_id (edges st))"
  proof
    assume "i \<in> edge_id ` set (edges (deleteElement n NodeKind st))"
    then obtain e' where e': "e' \<in> set (edges (deleteElement n NodeKind st))" "edge_id e' = i"
      by auto
    then have "e' \<in> set (edges st)" by (simp add: deleteElement_fields)
    from edge_id_unique [OF d this assms(3)] e'(2) assms(4) have "e' = e" by simp
    with e'(1) gone show False by simp
  qed
  with gone sel show ?thesis by simp
qed

theorem deleteElement_cascade_keeps_selection_witness:
  "selectedElementId (selectElement (Some ''5'') (Some EdgeKind) example_state) = Some ''5'' \<and>
   selectedElementType (selectElement (Some ''5'') (Some EdgeKind) example_state) = Some EdgeKind \<and>
   example_edge ''5'' ''2'' ''3'' \<in> set (edges (selectElement (Some ''5'') (Some EdgeKind) example_state)) \<and>
   selectedElementId
     (deleteElement ''3'' NodeKind (selectElement (Some ''5'') (Some EdgeKind) example_state)) =
     Some ''5'' \<and>
   selectedElementType
     (deleteElement ''3'' NodeKind (selectElement (Some ''5'') (Some EdgeKind) example_state)) =
     Some EdgeKind \<and>
   ''5'' \<notin> edge_id ` set (edges
     (deleteElement ''3'' NodeKind (selectElement (Some ''5'') (Some EdgeKind) example_state)))"
proof -
  let ?st = "selectElement (Some ''5'') (Some EdgeKind) example_state"
  have a: "selectedElementId ?st = Some ''5''" "selectedElementType ?st = Some EdgeKind"
    by (simp_all add: selectElement_def)
  have es: "edges ?st =
      [example_edge ''4'' ''1'' ''2'', example_edge ''5'' ''2'' ''3'', example_edge ''6'' ''3'' ''1'']"
    by (simp add: selectElement_def example_fields)
  have b: "example_edge ''5'' ''2'' ''3'' \<in> set (edges ?st)"
    unfolding es by simp
  have c: "edge_id (example_edge ''5'' ''2'' ''3'') = ''5''" by simp
  have d: "edge_source (example_edge ''5'' ''2'' ''3'') = ''3'' \<or>
      edge_target (example_edge ''5'' ''2'' ''3'') = ''3''" by simp
  have e: "''5'' \<noteq> ''3''" by simp
  have f: "distinct (map edge_id (edges ?st))" unfolding es by simp
  from deleteElement_cascade_keeps_selection [OF a b c d e] f a b show ?thesis by simp
qed

subsection \<open>Deleting and the selection\<close>

text \<open>
  C6, as amended. When an element is selected, \<^verbatim>\<open>deleteElement\<close> applied to its id
  and kind sets both selection fields to null. \<^verbatim>\<open>deleteElement\<close> applied to an id
  other than the selected one leaves both selection fields as they were. The
  comparison is by id alone: applied to the selected id with any kind it clears
  the selection.
\<close>

theorem deleteElement_selection:
  "(selectedElementId st = Some i \<and> selectedElementType st = Some k \<longrightarrow>
      selectedElementId (deleteElement i k st) = None \<and>
      selectedElementType (deleteElement i k st) = None) \<and>
   (selectedElementId st \<noteq> Some j \<longrightarrow>
      selectedElementId (deleteElement j k' st) = selectedElementId st \<and>
      selectedElementType (deleteElement j k' st) = selectedElementType st) \<and>
   (selectedElementId st = Some j \<longrightarrow>
      selectedElementId (deleteElement j k' st) = None \<and>
      selectedElementType (deleteElement j k' st) = None)"
  by (simp add: deleteElement_fields)

theorem deleteElement_selection_witness:
  "selectedElementId (selectElement (Some ''2'') (Some NodeKind) example_state) = Some ''2'' \<and>
   selectedElementType (selectElement (Some ''2'') (Some NodeKind) example_state) = Some NodeKind \<and>
   selectedElementId
     (deleteElement ''2'' NodeKind (selectElement (Some ''2'') (Some NodeKind) example_state)) =
     None \<and>
   selectedElementType
     (deleteElement ''2'' NodeKind (selectElement (Some ''2'') (Some NodeKind) example_state)) =
     None \<and>
   selectedElementId (selectElement (Some ''2'') (Some NodeKind) example_state) \<noteq> Some ''4'' \<and>
   selectedElementId
     (deleteElement ''4'' EdgeKind (selectElement (Some ''2'') (Some NodeKind) example_state)) =
     Some ''2'' \<and>
   selectedElementType
     (deleteElement ''4'' EdgeKind (selectElement (Some ''2'') (Some NodeKind) example_state)) =
     Some NodeKind \<and>
   selectedElementId
     (deleteElement ''2'' EdgeKind (selectElement (Some ''2'') (Some NodeKind) example_state)) =
     None"
proof -
  let ?st = "selectElement (Some ''2'') (Some NodeKind) example_state"
  have a: "selectedElementId ?st = Some ''2''" "selectedElementType ?st = Some NodeKind"
    by (simp_all add: selectElement_def)
  have b: "selectedElementId ?st \<noteq> Some ''4''"
    by (simp add: selectElement_def)
  from deleteElement_selection [of ?st "''2''" NodeKind "''4''" EdgeKind]
    deleteElement_selection [of ?st "''2''" NodeKind "''2''" EdgeKind] a b
  show ?thesis by simp
qed

text \<open>
  C6 as stated fails where a node and an edge have the same id: in \<open>clash_state\<close>
  the node 1 is selected, \<^verbatim>\<open>deleteElement('1', 'edge')\<close> deletes the edge 1, which
  is another element, and the selection is cleared although node 1 is still there.
\<close>

theorem deleteElement_other_kind_counterexample:
  "selectedElementId clash_state = Some ''1'' \<and>
   selectedElementType clash_state = Some NodeKind \<and>
   example_node ''1'' \<in> set (nodes clash_state) \<and>
   example_edge ''1'' ''2'' ''3'' \<in> set (edges clash_state) \<and>
   nodes (deleteElement ''1'' EdgeKind clash_state) = nodes clash_state \<and>
   selectedElementId (deleteElement ''1'' EdgeKind clash_state) = None \<and>
   selectedElementType (deleteElement ''1'' EdgeKind clash_state) = None"
  by (simp add: clash_state_def selectElement_def loadNetwork_def Let_def deleteElement_fields)

subsection \<open>Clearing the network\<close>

text \<open>
  C4. \<^verbatim>\<open>clearNetwork\<close> empties both collections, sets both selection fields to
  null and the id counter to 1, and the node that \<^verbatim>\<open>addNode\<close> adds next has
  the id \<^verbatim>\<open>"1"\<close>.
\<close>

theorem clearNetwork_resets:
  "nodes (clearNetwork st) = [] \<and> edges (clearNetwork st) = [] \<and>
   selectedElementId (clearNetwork st) = None \<and>
   selectedElementType (clearNetwork st) = None \<and>
   idCounter (clearNetwork st) = 1 \<and>
   map node_id (nodes (addNode type position (clearNetwork st))) = [''1'']"
proof -
  have c: "idCounter (clearNetwork st) = 1" "nodes (clearNetwork st) = []"
    by (simp_all add: clearNetwork_def)
  have "map node_id (nodes (addNode type position (clearNetwork st))) = [''1'']"
    unfolding node_id_addNode c by (simp add: int_to_string_1)
  then show ?thesis by (simp add: clearNetwork_def)
qed

subsection \<open>The two selection fields\<close>

lemma selection_fields_of_actions:
  "selectedElementId (onNodesChange f cs st) = selectedElementId st"
  "selectedElementType (onNodesChange f cs st) = selectedElementType st"
  "selectedElementId (onEdgesChange g ds st) = selectedElementId st"
  "selectedElementType (onEdgesChange g ds st) = selectedElementType st"
  "selectedElementId (onConnect_store c st) = selectedElementId st"
  "selectedElementType (onConnect_store c st) = selectedElementType st"
  "selectedElementId (onConnect_part000 c st) = selectedElementId st"
  "selectedElementType (onConnect_part000 c st) = selectedElementType st"
  "selectedElementId (addNode type position st) = selectedElementId st"
  "selectedElementType (addNode type position st) = selectedElementType st"
  "selectedElementId (updateNodeData ident data st) = selectedElementId st"
  "selectedElementType (updateNodeData ident data st) = selectedElementType st"
  "selectedElementId (updateEdgeData_store ident data st) = selectedElementId st"
  "selectedElementType (updateEdgeData_store ident data st) = selectedElementType st"
  "selectedElementId (updateEdgeData_part000 ident data st) = selectedElementId st"
  "selectedElementType (updateEdgeData_part000 ident data st) = selectedElementType st"
  "selectedElementId (selectElement sid skind st) = sid"
  "selectedElementType (selectElement sid skind st) = skind"
  "selectedElementId (loadNetwork ns es st) = None"
  "selectedElementType (loadNetwork ns es st) = None"
  "selectedElementId (clearNetwork st) = None"
  "selectedElementType (clearNetwork st) = None"
  by (simp_all add: onNodesChange_def onEdgesChange_def onConnect_store_def
      onConnect_part000_def addNode_def updateNodeData_def updateEdgeData_store_def
      updateEdgeData_part000_def selectElement_def loadNetwork_def clearNetwork_def
      getId_def Let_def)

text \<open>
  C7, as amended. In every state that the store reaches from the initial state
  by actions in which each call of \<^verbatim>\<open>selectElement\<close> passes either two nulls or
  an id together with a kind, \<^verbatim>\<open>selectedElementId\<close> is null exactly when
  \<^verbatim>\<open>selectedElementType\<close> is, in both versions of the store.
\<close>

theorem selection_fields_paired:
  assumes "reachable both_or_neither v st"
  shows "(selectedElementId st = None) = (selectedElementType st = None)"
  using assms
proof (induction rule: reachable.induct)
  case reach_init
  show ?case by (simp add: initialState_def)
next
  case (reach_deleteElement st ident kind)
  then show ?case by (simp add: deleteElement_fields)
next
  case (reach_selectElement st sid skind)
  then show ?case by (simp add: selection_fields_of_actions both_or_neither_def)
qed (simp_all add: selection_fields_of_actions)

theorem selection_fields_paired_witness:
  "reachable both_or_neither Part000
     (deleteElement ''1'' NodeKind
        (selectElement (Some ''1'') (Some NodeKind) (addNode ''node'' (0, 0) initialState))) \<and>
   (selectedElementId
      (deleteElement ''1'' NodeKind
        (selectElement (Some ''1'') (Some NodeKind) (addNode ''node'' (0, 0) initialState))) =
      None) =
   (selectedElementType
      (deleteElement ''1'' NodeKind
        (selectElement (Some ''1'') (Some NodeKind) (addNode ''node'' (0, 0) initialState))) =
      None)"
proof -
  have r: "reachable both_or_neither Part000
     (deleteElement ''1'' NodeKind
        (selectElement (Some ''1'') (Some NodeKind) (addNode ''node'' (0, 0) initialState)))"
    by (intro reach_deleteElement reach_selectElement reach_addNode reach_init)
       (simp_all add: both_or_neither_def)
  from selection_fields_paired [OF r] r show ?thesis by simp
qed

text \<open>
  C7 as stated, with any arguments of \<^verbatim>\<open>selectElement\<close>, fails: the call
  \<^verbatim>\<open>selectElement('1', null)\<close> in the initial state stores an id with no kind.
\<close>

theorem selection_fields_counterexample:
  "reachable any_arguments StoreTs (selectElement (Some ''1'') None initialState) \<and>
   reachable any_arguments Part000 (selectElement (Some ''1'') None initialState) \<and>
   selectedElementId (selectElement (Some ''1'') None initialState) = Some ''1'' \<and>
   selectedElementType (selectElement (Some ''1'') None initialState) = None"
proof -
  have "reachable any_arguments v (selectElement (Some ''1'') None initialState)" for v
    by (intro reach_selectElement reach_init) (simp add: any_arguments_def)
  then show ?thesis by (simp add: selectElement_def)
qed

subsection \<open>Reading an id as a number\<close>

lemma is_digit_10: "is_digit 10 c = (48 \<le> (of_char c :: nat) \<and> (of_char c :: nat) \<le> 57)"
  by (auto simp: is_digit_def digit_val_def Let_def)

lemma digit_set_iff:
  "(c \<in> set ''0123456789'') = (48 \<le> (of_char c :: nat) \<and> (of_char c :: nat) \<le> 57)"
proof
  assume "c \<in> set ''0123456789''"
  then show "48 \<le> (of_char c :: nat) \<and> (of_char c :: nat) \<le> 57" by auto
next
  assume a: "48 \<le> (of_char c :: nat) \<and> (of_char c :: nat) \<le> 57"
  have "\<And>n :: nat. 48 \<le> n \<Longrightarrow> n \<le> 57 \<Longrightarrow> n \<in> {48, 49, 50, 51, 52, 53, 54, 55, 56, 57}"
    by simp arith
  with a have "(of_char c :: nat) \<in> {48, 49, 50, 51, 52, 53, 54, 55, 56, 57}" by blast
  then have mem: "(of_char c :: nat) \<in> of_char ` set ''0123456789''" by simp
  have "inj (of_char :: char \<Rightarrow> nat)" by (rule injI) simp
  from inj_image_mem_iff [OF this] mem show "c \<in> set ''0123456789''" by blast
qed

lemma is_digit_10_set: "is_digit 10 c = (c \<in> set ''0123456789'')"
  by (simp only: is_digit_10 digit_set_iff)

lemma digit_val_digit_char: 
  assumes "d < 10" shows "digit_val (digit_char d) = Some d"
proof -
  from assms have "d \<in> {0, 1, 2, 3, 4, 5, 6, 7, 8, 9}" by auto
  then show ?thesis by (auto simp: digit_char_def digit_val_def)
qed

lemma digit_char_is_digit: "is_digit 10 (digit_char d)"
proof -
  have "d mod 10 < 10" by simp
  from digit_val_digit_char [OF this] show ?thesis
    by (simp add: is_digit_def digit_char_def)
qed


lemma is_digit_10_not_other:
  assumes "is_digit 10 c"
  shows "\<not> is_space c" "c \<noteq> CHR ''+''" "c \<noteq> CHR ''-''" "c \<noteq> CHR ''x''" "c \<noteq> CHR ''X''"
  using assms by (auto simp: is_digit_10 is_space_def)

lemma digits_value_snoc:
  "digits_value R (z @ [c]) =
     digits_value R z * R + (case digit_val c of None \<Rightarrow> 0 | Some d \<Rightarrow> d)"
  by (simp add: digits_value_def)

lemma nat_to_string_digits:
  "nat_to_string n \<noteq> [] \<and> (\<forall>c \<in> set (nat_to_string n). is_digit 10 c)"
proof (induction n rule: nat_to_string.induct)
  case (1 n)
  show ?case
  proof (cases "n < 10")
    case True
    then show ?thesis by (subst (1 2) nat_to_string.simps) (simp add: digit_char_is_digit)
  next
    case False
    with 1 show ?thesis by (subst (1 2) nat_to_string.simps) (simp add: digit_char_is_digit)
  qed
qed

lemma digits_value_nat_to_string: "digits_value 10 (nat_to_string n) = n"
proof (induction n rule: nat_to_string.induct)
  case (1 n)
  show ?case
  proof (cases "n < 10")
    case True
    then show ?thesis
      by (subst nat_to_string.simps) (simp add: digits_value_def digit_val_digit_char)
  next
    case False
    have "n mod 10 < 10" by simp
    from digit_val_digit_char [OF this] have "digit_val (digit_char (n mod 10)) = Some (n mod 10)" .
    with False 1 show ?thesis
      by (subst nat_to_string.simps) (simp add: digits_value_snoc)
  qed
qed

lemma parseInt_digits:
  assumes "s \<noteq> []" and "\<forall>c \<in> set s. is_digit 10 c"
  shows "parseInt s = Some (int (digits_value 10 s))"
    and "parseInt (CHR ''-'' # s) = Some (- int (digits_value 10 s))"
proof -
  from assms obtain c cs where s: "s = c # cs" by (cases s) auto
  with assms(2) have c: "is_digit 10 c" by simp
  have nohex: "take 2 s \<noteq> ''0x''" "take 2 s \<noteq> ''0X''"
  proof -
    show "take 2 s \<noteq> ''0x''"
    proof (cases cs)
      case Nil
      with s show ?thesis by simp
    next
      case (Cons d ds)
      with s assms(2) have "is_digit 10 d" by simp
      then have "d \<noteq> CHR ''x''" by (rule is_digit_10_not_other)
      with s Cons show ?thesis by simp
    qed
    show "take 2 s \<noteq> ''0X''"
    proof (cases cs)
      case Nil
      with s show ?thesis by simp
    next
      case (Cons d ds)
      with s assms(2) have "is_digit 10 d" by simp
      then have "d \<noteq> CHR ''X''" by (rule is_digit_10_not_other)
      with s Cons show ?thesis by simp
    qed
  qed
  have all: "takeWhile (is_digit 10) s = s"
    using assms(2) by (simp add: takeWhile_eq_all_conv)
  have drop: "dropWhile is_space s = s"
    using s is_digit_10_not_other(1) [OF c] by simp
  have sign: "take 1 s \<noteq> ''+''" "take 1 s \<noteq> ''-''"
    using s is_digit_10_not_other(2,3) [OF c] by simp_all
  show "parseInt s = Some (int (digits_value 10 s))"
    unfolding parseInt_def Let_def drop using sign nohex assms(1) by (simp add: all)
  have drop': "dropWhile is_space (CHR ''-'' # s) = CHR ''-'' # s"
    by (simp add: is_space_def)
  show "parseInt (CHR ''-'' # s) = Some (- int (digits_value 10 s))"
    unfolding parseInt_def Let_def drop' using nohex assms(1) by (simp add: all)
qed

lemma parseInt_or_0_numeral:
  "parseInt_or_0 (nat_to_string k) = int k"
  "parseInt_or_0 (CHR ''-'' # nat_to_string k) = - int k"
proof -
  from nat_to_string_digits [of k]
  have d: "nat_to_string k \<noteq> []" "\<forall>c \<in> set (nat_to_string k). is_digit 10 c" by simp_all
  show "parseInt_or_0 (nat_to_string k) = int k"
    by (simp add: parseInt_or_0_def parseInt_digits(1) [OF d] digits_value_nat_to_string)
  show "parseInt_or_0 (CHR ''-'' # nat_to_string k) = - int k"
    by (simp add: parseInt_or_0_def parseInt_digits(2) [OF d] digits_value_nat_to_string)
qed

lemma parseInt_or_0_non_numeric:
  assumes "non_numeric s"
  shows "parseInt_or_0 s = 0"
proof -
  define t where "t = dropWhile is_space s"
  define u where "u = (if take 1 t = ''+'' \<or> take 1 t = ''-'' then drop 1 t else t)"
  from assms have nn: "u = [] \<or> hd u \<notin> set ''0123456789''"
    unfolding non_numeric_def Let_def t_def u_def .
  have nohex: "take 2 u \<noteq> ''0x''" "take 2 u \<noteq> ''0X''"
    using nn by (cases u; auto)+
  have none: "takeWhile (is_digit 10) u = []"
  proof (cases u)
    case Nil
    then show ?thesis by simp
  next
    case (Cons a as)
    with nn have "hd u \<notin> set ''0123456789''" by blast
    then have "\<not> is_digit 10 (hd u)" unfolding is_digit_10_set .
    with Cons show ?thesis by simp
  qed
  have "parseInt s = None"
    unfolding parseInt_def Let_def
    using nohex [unfolded u_def t_def] none [unfolded u_def t_def] by simp
  then show ?thesis by (simp add: parseInt_or_0_def)
qed

subsection \<open>Loading a network\<close>

lemma Math_max_0_Max: "Math_max_0 xs = Max (insert 0 (set xs))"
proof (induction xs)
  case Nil
  show ?case by (simp add: Math_max_0_def)
next
  case (Cons x xs)
  have "Max (insert 0 (set (x # xs))) = Max (insert x (insert 0 (set xs)))"
    by (simp add: insert_commute)
  also have "\<dots> = max x (Max (insert 0 (set xs)))"
    by (rule Max_insert) simp_all
  finally show ?case using Cons by (simp add: Math_max_0_def)
qed

lemma Max_insert_0:
  assumes "x \<in> set xs" and "(0::int) \<le> x"
  shows "Max (insert 0 (set xs)) = Max (set xs)"
proof -
  have ne: "set xs \<noteq> {}" using assms(1) by auto
  have "x \<le> Max (set xs)" using assms(1) by simp
  with assms(2) have "0 \<le> Max (set xs)" by simp
  moreover have "Max (insert 0 (set xs)) = max 0 (Max (set xs))"
    using ne by (simp add: Max_insert)
  ultimately show ?thesis by simp
qed

lemma loadNetwork_fields:
  "nodes (loadNetwork ns es st) = ns"
  "edges (loadNetwork ns es st) = es"
  "idCounter (loadNetwork ns es st) =
     Math_max_0 (map (\<lambda>n. parseInt_or_0 (node_id n)) ns @
                 map (\<lambda>e. parseInt_or_0 (edge_id e)) es) + 1"
  by (simp_all add: loadNetwork_def Let_def)

lemma parseInt_or_0_examples:
  "parseInt_or_0 ''5'' = 5" "parseInt_or_0 ''7'' = 7" "parseInt_or_0 ''-5'' = - 5"
  by (simp_all add: parseInt_or_0_def parseInt_def is_space_def is_digit_def digit_val_def
      digits_value_def)

lemma exact_id_examples: "exact_id ''5''" "exact_id ''7''" "exact_id ''-5''"
  by (simp_all add: exact_id_def ascii_def safe_integer_def parseInt_or_0_examples)

text \<open>
  C3, as amended. When every id of the two collections is an ASCII string that
  \<^verbatim>\<open>parseInt\<close> reads as a safe integer (of magnitude below \<open>2 ^ 53\<close>), then after
  \<^verbatim>\<open>loadNetwork\<close> the id counter is one greater than the maximum of 0 and the ids
  as \<^verbatim>\<open>parseInt\<close> reads them, and when some id is not negative this is the
  counter of the specification. For this computation a decimal numeral below
  \<open>2 ^ 53\<close> counts as its value, with a minus sign as the negative value, and an
  ASCII id that is not numeric counts as 0. In every case the collections are
  the given ones and both selection fields are null. After loading a node with
  id \<^verbatim>\<open>"5"\<close> and an edge with id \<^verbatim>\<open>"7"\<close>, \<^verbatim>\<open>addNode\<close> gives the new node the id
  \<^verbatim>\<open>"8"\<close>.
\<close>

theorem loadNetwork_idCounter:
  "((\<forall>s \<in> set (map node_id ns @ map edge_id es). exact_id s) \<longrightarrow>
      idCounter (loadNetwork ns es st) =
        Max (insert 0 (set (map (\<lambda>n. parseInt_or_0 (node_id n)) ns @
                            map (\<lambda>e. parseInt_or_0 (edge_id e)) es))) + 1 \<and>
      ((\<exists>x \<in> set (map (\<lambda>n. parseInt_or_0 (node_id n)) ns @
                     map (\<lambda>e. parseInt_or_0 (edge_id e)) es). 0 \<le> x) \<longrightarrow>
         idCounter (loadNetwork ns es st) = spec_idCounter ns es)) \<and>
   (k < 2 ^ 53 \<longrightarrow>
      parseInt_or_0 (nat_to_string k) = int k \<and>
      parseInt_or_0 (CHR ''-'' # nat_to_string k) = - int k) \<and>
   (ascii s \<and> non_numeric s \<longrightarrow> parseInt_or_0 s = 0) \<and>
   nodes (loadNetwork ns es st) = ns \<and> edges (loadNetwork ns es st) = es \<and>
   selectedElementId (loadNetwork ns es st) = None \<and>
   selectedElementType (loadNetwork ns es st) = None \<and>
   map node_id
     (nodes (addNode type position
        (loadNetwork [n\<lparr>node_id := ''5''\<rparr>] [e\<lparr>edge_id := ''7''\<rparr>] st))) = [''5'', ''8'']"
proof -
  let ?ids = "map (\<lambda>n. parseInt_or_0 (node_id n)) ns @ map (\<lambda>e. parseInt_or_0 (edge_id e)) es"
  have counter: "idCounter (loadNetwork ns es st) = Max (insert 0 (set ?ids)) + 1"
    unfolding loadNetwork_fields Math_max_0_Max ..
  have spec: "idCounter (loadNetwork ns es st) = spec_idCounter ns es"
    if "\<exists>x \<in> set ?ids. 0 \<le> x"
  proof -
    from that obtain x where "x \<in> set ?ids" "0 \<le> x" by blast
    then have "Max (insert 0 (set ?ids)) = Max (set ?ids)" by (rule Max_insert_0)
    with counter show ?thesis by (simp add: spec_idCounter_def)
  qed
  have "idCounter (loadNetwork [n\<lparr>node_id := ''5''\<rparr>] [e\<lparr>edge_id := ''7''\<rparr>] st) = 8"
    by (simp add: loadNetwork_fields Math_max_0_def parseInt_or_0_examples)
  then have eight: "map node_id
     (nodes (addNode type position
        (loadNetwork [n\<lparr>node_id := ''5''\<rparr>] [e\<lparr>edge_id := ''7''\<rparr>] st))) = [''5'', ''8'']"
    unfolding node_id_addNode by (simp add: loadNetwork_fields int_to_string_8)
  have zero: "parseInt_or_0 s = 0" if "non_numeric s"
    using that by (rule parseInt_or_0_non_numeric)
  from counter spec eight zero show ?thesis
    by (simp add: loadNetwork_fields selection_fields_of_actions parseInt_or_0_numeral)
qed

theorem loadNetwork_idCounter_witness:
  "exact_id ''5'' \<and> exact_id ''7'' \<and> (0::int) \<le> parseInt_or_0 ''7'' \<and>
   (42::nat) < 2 ^ 53 \<and> ascii ''abc'' \<and> non_numeric ''abc'' \<and>
   idCounter (loadNetwork [example_node ''5''] [example_edge ''7'' ''5'' ''5''] example_state) = 8 \<and>
   spec_idCounter [example_node ''5''] [example_edge ''7'' ''5'' ''5''] = 8 \<and>
   parseInt_or_0 (nat_to_string 42) = 42 \<and>
   parseInt_or_0 (CHR ''-'' # nat_to_string 42) = - 42 \<and>
   parseInt_or_0 ''abc'' = 0"
proof -
  have h: "\<forall>s \<in> set (map node_id [example_node ''5''] @
      map edge_id [example_edge ''7'' ''5'' ''5'']). exact_id s"
    by (simp add: exact_id_examples)
  have p: "\<exists>x \<in> set (map (\<lambda>n. parseInt_or_0 (node_id n)) [example_node ''5''] @
      map (\<lambda>e. parseInt_or_0 (edge_id e)) [example_edge ''7'' ''5'' ''5'']). 0 \<le> x"
    by (simp add: parseInt_or_0_examples)
  have s: "spec_idCounter [example_node ''5''] [example_edge ''7'' ''5'' ''5''] = 8"
    by (simp add: spec_idCounter_def parseInt_or_0_examples)
  have k: "(42::nat) < 2 ^ 53" by simp
  have a: "ascii ''abc''" "non_numeric ''abc''"
    by (simp_all add: ascii_def non_numeric_def is_space_def Let_def)
  from loadNetwork_idCounter
    [of "[example_node ''5'']" "[example_edge ''7'' ''5'' ''5'']" example_state 42 "''abc''"]
    h p s k a
  show ?thesis by (simp add: parseInt_or_0_examples exact_id_examples)
qed

text \<open>
  C3 as stated fails on an id that \<^verbatim>\<open>parseInt\<close> reads as a negative number: with
  the single id \<^verbatim>\<open>"-5"\<close> the greatest id is \<open>-5\<close> and one more is \<open>-4\<close>, while the
  store sets the counter to 1.
\<close>

theorem loadNetwork_negative_id_counterexample:
  "idCounter (loadNetwork [example_node ''-5''] [] initialState) = 1 \<and>
   spec_idCounter [example_node ''-5''] [] = - 4"
  by (simp add: loadNetwork_fields Math_max_0_def spec_idCounter_def parseInt_or_0_examples)

subsection \<open>Connecting two nodes\<close>

text \<open>
  What \<^verbatim>\<open>onConnect\<close> hands to the library: the old edges and one edge built
  from the connection.
\<close>

lemma onConnect_edges:
  "\<exists>e. edges (onConnect_store c st) = addEdge e (edges st) \<and>
     edge_id e = int_to_string (idCounter st) \<and>
     edge_source e = conn_source c \<and> edge_target e = conn_target c \<and>
     edge_data e = Some (defaultEdgeData (''C-'' @ int_to_string (idCounter st)))"
  "\<exists>e. edges (onConnect_part000 c st) = addEdge e (edges st) \<and>
     edge_id e = int_to_string (idCounter st) \<and>
     edge_source e = conn_source c \<and> edge_target e = conn_target c \<and>
     edge_data e =
       Some (defaultEdgeData (''C'' @ nat_to_string (length (filter is_conduit (edges st)) + 1)))"
proof -
  show "\<exists>e. edges (onConnect_store c st) = addEdge e (edges st) \<and>
     edge_id e = int_to_string (idCounter st) \<and>
     edge_source e = conn_source c \<and> edge_target e = conn_target c \<and>
     edge_data e = Some (defaultEdgeData (''C-'' @ int_to_string (idCounter st)))"
    unfolding onConnect_store_def getId_def Let_def
    by (simp del: append.simps, intro exI conjI, rule refl, simp_all)
  show "\<exists>e. edges (onConnect_part000 c st) = addEdge e (edges st) \<and>
     edge_id e = int_to_string (idCounter st) \<and>
     edge_source e = conn_source c \<and> edge_target e = conn_target c \<and>
     edge_data e =
       Some (defaultEdgeData (''C'' @ nat_to_string (length (filter is_conduit (edges st)) + 1)))"
    unfolding onConnect_part000_def getId_def Let_def
    by (simp del: append.simps, intro exI conjI, rule refl, simp_all)
qed

lemma defaultEdgeData_documented:
  "edge_data e = Some (defaultEdgeData l) \<Longrightarrow> documented_defaults e"
  by (simp add: documented_defaults_def defaultEdgeData_def obj_of_def)

text \<open>
  C2. In both versions of the store, \<^verbatim>\<open>onConnect\<close> with a connection from \<open>a\<close>
  to \<open>b\<close> puts exactly one new edge at the end of the edge collection, whatever
  \<open>a\<close>, \<open>b\<close> and the edges already there are: the collection is one longer, its
  old elements are kept, and the new edge has source \<open>a\<close>, target \<open>b\<close>, a fresh
  id from the counter, and the data \<open>length = 1000\<close>, \<open>diameter = 0.5\<close>,
  \<open>celerity = 1000\<close>, \<open>friction = 0.02\<close>, \<open>numSegments = 1\<close>.
\<close>

theorem onConnect_appends_default_edge:
  "edges (onConnect_store c st) = edges st @ [last (edges (onConnect_store c st))] \<and>
   length (edges (onConnect_store c st)) = length (edges st) + 1 \<and>
   edge_source (last (edges (onConnect_store c st))) = conn_source c \<and>
   edge_target (last (edges (onConnect_store c st))) = conn_target c \<and>
   edge_id (last (edges (onConnect_store c st))) = int_to_string (idCounter st) \<and>
   documented_defaults (last (edges (onConnect_store c st))) \<and>
   edges (onConnect_part000 c st) = edges st @ [last (edges (onConnect_part000 c st))] \<and>
   length (edges (onConnect_part000 c st)) = length (edges st) + 1 \<and>
   edge_source (last (edges (onConnect_part000 c st))) = conn_source c \<and>
   edge_target (last (edges (onConnect_part000 c st))) = conn_target c \<and>
   edge_id (last (edges (onConnect_part000 c st))) = int_to_string (idCounter st) \<and>
   documented_defaults (last (edges (onConnect_part000 c st)))"
proof -
  from onConnect_edges(1) [of c st] obtain e where
    e: "edges (onConnect_store c st) = addEdge e (edges st)"
      "edge_id e = int_to_string (idCounter st)"
      "edge_source e = conn_source c" "edge_target e = conn_target c"
      "edge_data e = Some (defaultEdgeData (''C-'' @ int_to_string (idCounter st)))"
    by blast
  from onConnect_edges(2) [of c st] obtain e' where
    e': "edges (onConnect_part000 c st) = addEdge e' (edges st)"
      "edge_id e' = int_to_string (idCounter st)"
      "edge_source e' = conn_source c" "edge_target e' = conn_target c"
      "edge_data e' =
        Some (defaultEdgeData (''C'' @ nat_to_string (length (filter is_conduit (edges st)) + 1)))"
    by blast
  have "documented_defaults e" using e(5) by (rule defaultEdgeData_documented)
  moreover have "documented_defaults e'" using e'(5) by (rule defaultEdgeData_documented)
  ultimately show ?thesis using e(1-4) e'(1-4) by (simp add: addEdge_def)
qed

subsection \<open>Updating the data of an element\<close>



text \<open>
  The references that \<open>map_alloc\<close> returns hold the values that \<open>map\<close> computes,
  and the objects that were allocated before are not touched.
\<close>

lemma map_alloc_values:
  assumes "\<forall>r \<in> set rs. r < nxt"
    and "map_alloc hit upd rs objs nxt = (rs', objs', nxt')"
  shows "map objs' rs' = map (\<lambda>x. if hit x then upd x else x) (map objs rs) \<and>
    nxt \<le> nxt' \<and> (\<forall>q < nxt. objs' q = objs q) \<and> (\<forall>r \<in> set rs'. r < nxt')"
  using assms
proof (induction rs arbitrary: objs nxt rs' objs' nxt')
  case Nil
  then show ?case by simp
next
  case (Cons r rs)
  from Cons.prems(1) have r: "r < nxt" and rs: "\<forall>q \<in> set rs. q < nxt" by simp_all
  show ?case
  proof (cases "hit (objs r)")
    case True
    let ?objs1 = "objs(nxt := upd (objs r))"
    obtain ts objs2 nxt2 where rec: "map_alloc hit upd rs ?objs1 (nxt + 1) = (ts, objs2, nxt2)"
      by (cases "map_alloc hit upd rs ?objs1 (nxt + 1)") auto
    with True Cons.prems(2) have res: "rs' = nxt # ts" "objs' = objs2" "nxt' = nxt2"
      by simp_all
    from rs have "\<forall>q \<in> set rs. q < nxt + 1" by auto
    from Cons.IH [OF this rec]
    have ih: "map objs2 ts = map (\<lambda>x. if hit x then upd x else x) (map ?objs1 rs)"
      "nxt + 1 \<le> nxt2" "\<forall>q < nxt + 1. objs2 q = ?objs1 q" "\<forall>q \<in> set ts. q < nxt2"
      by simp_all
    from rs have same: "map ?objs1 rs = map objs rs" by auto
    from ih(3) have head: "objs2 nxt = upd (objs r)" by simp
    from ih(3) have old: "\<forall>q < nxt. objs2 q = objs q" by simp
    from ih(2) have "nxt < nxt2" "nxt \<le> nxt2" by simp_all
    with ih(1,4) same head old True show ?thesis unfolding res by simp
  next
    case False
    obtain ts objs2 nxt2 where rec: "map_alloc hit upd rs objs nxt = (ts, objs2, nxt2)"
      by (cases "map_alloc hit upd rs objs nxt") auto
    with False Cons.prems(2) have res: "rs' = r # ts" "objs' = objs2" "nxt' = nxt2"
      by simp_all
    from Cons.IH [OF rs rec]
    have ih: "map objs2 ts = map (\<lambda>x. if hit x then upd x else x) (map objs rs)"
      "nxt \<le> nxt2" "\<forall>q < nxt. objs2 q = objs q" "\<forall>q \<in> set ts. q < nxt2"
      by simp_all
    from ih(3) r have "objs2 r = objs r" by simp
    moreover from ih(2) r have "r < nxt2" by simp
    ultimately show ?thesis using ih False unfolding res by simp
  qed
qed

text \<open>The heap holds what the actions on values compute.\<close>

lemma heap_model_agrees_nodes:
  assumes ok: "heap_ok h" and abs: "nodes_of h = nodes st"
  shows "nodes_of (updateNodeData_heap ident data h) = nodes (updateNodeData ident data st)"
proof -
  let ?m = "map_alloc (\<lambda>node. node_id node = ident)
       (\<lambda>node. node\<lparr>node_data := node_data node ++ data\<rparr>)
       (node_arrays h (nodes_ref h)) (node_objs h) (next_ref h)"
  obtain rs objs nxt where m: "?m = (rs, objs, nxt)"
    by (cases ?m) auto
  from ok have "\<forall>r \<in> set (node_arrays h (nodes_ref h)). r < next_ref h"
    by (simp add: heap_ok_def)
  from map_alloc_values [OF this m]
  have v: "map objs rs =
      map (\<lambda>x. if node_id x = ident then x\<lparr>node_data := node_data x ++ data\<rparr> else x)
        (map (node_objs h) (node_arrays h (nodes_ref h)))"
    by (rule conjunct1)
  have "nodes_of (updateNodeData_heap ident data h) = map objs rs"
    unfolding updateNodeData_heap_def nodes_of_def m by simp
  also note v
  finally show ?thesis
    unfolding updateNodeData_def abs [unfolded nodes_of_def] by simp
qed

lemma heap_model_agrees_edges:
  assumes ok: "heap_ok h" and abs: "edges_of h = edges st"
  shows "edges_of (updateEdgeData_store_heap ident data h) =
    edges (updateEdgeData_store ident data st)"
proof -
  let ?m = "map_alloc (\<lambda>edge. edge_id edge = ident) (updateEdge_store data)
       (edge_arrays h (edges_ref h)) (edge_objs h) (next_ref h)"
  obtain rs objs nxt where m: "?m = (rs, objs, nxt)"
    by (cases ?m) auto
  from ok have "\<forall>r \<in> set (edge_arrays h (edges_ref h)). r < next_ref h"
    by (simp add: heap_ok_def)
  from map_alloc_values [OF this m]
  have v: "map objs rs =
      map (\<lambda>x. if edge_id x = ident then updateEdge_store data x else x)
        (map (edge_objs h) (edge_arrays h (edges_ref h)))"
    by (rule conjunct1)
  have "edges_of (updateEdgeData_store_heap ident data h) = map objs rs"
    unfolding updateEdgeData_store_heap_def edges_of_def m by simp
  also note v
  finally show ?thesis
    unfolding updateEdgeData_store_def abs [unfolded edges_of_def] by simp
qed








subsection \<open>The style of an edge\<close>

lemma updateEdge_store_fields:
  "edge_id (updateEdge_store data edge) = edge_id edge"
  "data ''type'' = Some (JStr ''conduit'') \<Longrightarrow>
     edge_style (updateEdge_store data edge) =
       Some [''stroke'' \<mapsto> JStr ''#3b82f6'', ''strokeWidth'' \<mapsto> JNum 2] \<and>
     edge_markerEnd (updateEdge_store data edge) =
       Some (EdgeMarker [''type'' \<mapsto> MarkerType_ArrowClosed, ''color'' \<mapsto> JStr ''#3b82f6''])"
  "data ''type'' = Some (JStr ''dummy'') \<Longrightarrow>
     edge_style (updateEdge_store data edge) =
       Some [''stroke'' \<mapsto> JStr ''#94a3b8'', ''strokeWidth'' \<mapsto> JNum 2,
         ''strokeDasharray'' \<mapsto> JStr ''5,5''] \<and>
     edge_markerEnd (updateEdge_store data edge) =
       Some (EdgeMarker [''type'' \<mapsto> MarkerType_ArrowClosed, ''color'' \<mapsto> JStr ''#94a3b8''])"
  by (simp_all add: updateEdge_store_def Let_def)

text \<open>
  In \<^verbatim>\<open>store.ts\<close> a patch of type \<open>dummy\<close> gives every edge with the id the dashed
  gray style and the gray marker, and a patch of type \<open>conduit\<close> the solid blue
  ones.
\<close>

lemma updateEdgeData_store_restyles:
  assumes "e \<in> set (edges (updateEdgeData_store ident data st))" and "edge_id e = ident"
  shows "data ''type'' = Some (JStr ''dummy'') \<Longrightarrow>
      edge_style e = Some [''stroke'' \<mapsto> JStr ''#94a3b8'', ''strokeWidth'' \<mapsto> JNum 2,
         ''strokeDasharray'' \<mapsto> JStr ''5,5''] \<and>
      edge_markerEnd e =
        Some (EdgeMarker [''type'' \<mapsto> MarkerType_ArrowClosed, ''color'' \<mapsto> JStr ''#94a3b8''])"
    and "data ''type'' = Some (JStr ''conduit'') \<Longrightarrow>
      edge_style e = Some [''stroke'' \<mapsto> JStr ''#3b82f6'', ''strokeWidth'' \<mapsto> JNum 2] \<and>
      edge_markerEnd e =
        Some (EdgeMarker [''type'' \<mapsto> MarkerType_ArrowClosed, ''color'' \<mapsto> JStr ''#3b82f6''])"
proof -
  from assms(1) obtain e0 where e0: "e0 \<in> set (edges st)"
    "e = (if edge_id e0 = ident then updateEdge_store data e0 else e0)"
    by (auto simp: updateEdgeData_store_def)
  with assms(2) have e: "e = updateEdge_store data e0"
    by (simp split: if_splits)
  show "data ''type'' = Some (JStr ''dummy'') \<Longrightarrow>
      edge_style e = Some [''stroke'' \<mapsto> JStr ''#94a3b8'', ''strokeWidth'' \<mapsto> JNum 2,
         ''strokeDasharray'' \<mapsto> JStr ''5,5''] \<and>
      edge_markerEnd e =
        Some (EdgeMarker [''type'' \<mapsto> MarkerType_ArrowClosed, ''color'' \<mapsto> JStr ''#94a3b8''])"
    unfolding e by (rule updateEdge_store_fields(3))
  show "data ''type'' = Some (JStr ''conduit'') \<Longrightarrow>
      edge_style e = Some [''stroke'' \<mapsto> JStr ''#3b82f6'', ''strokeWidth'' \<mapsto> JNum 2] \<and>
      edge_markerEnd e =
        Some (EdgeMarker [''type'' \<mapsto> MarkerType_ArrowClosed, ''color'' \<mapsto> JStr ''#3b82f6''])"
    unfolding e by (rule updateEdge_store_fields(2))
qed

text \<open>
  C8 at the failing input. The edge 4 of the example is a blue conduit. In the
  later version of the store \<^verbatim>\<open>updateEdgeData('4', {type: 'dummy'})\<close> leaves the
  state as it is: the edge keeps the blue stroke and gets no dash pattern. In
  \<^verbatim>\<open>store.ts\<close> the same call gives the edge the gray stroke and the dashes.
\<close>

theorem updateEdgeData_part000_keeps_style:
  "edge_id (hd (edges example_state)) = ''4'' \<and>
   updateEdgeData_part000 ''4'' [''type'' \<mapsto> JStr ''dummy''] example_state = example_state \<and>
   obj_of (edge_style (hd (edges
     (updateEdgeData_part000 ''4'' [''type'' \<mapsto> JStr ''dummy''] example_state)))) ''stroke'' =
     Some (JStr ''#3b82f6'') \<and>
   obj_of (edge_style (hd (edges
     (updateEdgeData_part000 ''4'' [''type'' \<mapsto> JStr ''dummy''] example_state))))
     ''strokeDasharray'' = None \<and>
   obj_of (edge_style (hd (edges
     (updateEdgeData_store ''4'' [''type'' \<mapsto> JStr ''dummy''] example_state)))) ''stroke'' =
     Some (JStr ''#94a3b8'') \<and>
   obj_of (edge_style (hd (edges
     (updateEdgeData_store ''4'' [''type'' \<mapsto> JStr ''dummy''] example_state))))
     ''strokeDasharray'' = Some (JStr ''5,5'')"
  by (simp add: updateEdgeData_part000_def updateEdgeData_store_def example_fields
      updateEdge_store_fields obj_of_def example_edge_def)

subsection \<open>The marker of a rendered edge\<close>

text \<open>
  C9. The path of the arrow marker is filled with the stroke of the style that
  the component is given, and with \<^verbatim>\<open>#3b82f6\<close> when the style or its stroke is
  absent or the stroke is the empty string, which \<^verbatim>\<open>||\<close> takes as absent. The
  output depends on the properties alone: equal properties give equal output,
  and the \<^verbatim>\<open>markerEnd\<close> property has no part in it.
\<close>

theorem ConnectionEdge_marker_fill:
  "(obj_of (props_style props) ''stroke'' = Some (JStr s) \<and> s \<noteq> [] \<longrightarrow>
      marker_path_fill (ConnectionEdge getBezierPath props) = JStr s) \<and>
   (obj_of (props_style props) ''stroke'' = Some (JStr []) \<longrightarrow>
      marker_path_fill (ConnectionEdge getBezierPath props) = JStr ''#3b82f6'') \<and>
   (obj_of (props_style props) ''stroke'' = None \<longrightarrow>
      marker_path_fill (ConnectionEdge getBezierPath props) = JStr ''#3b82f6'') \<and>
   (props_style props = None \<longrightarrow>
      marker_path_fill (ConnectionEdge getBezierPath props) = JStr ''#3b82f6'') \<and>
   marker_id (ConnectionEdge getBezierPath props) = ''arrow-'' @ props_id props \<and>
   baseEdge_markerEnd (ConnectionEdge getBezierPath props) =
     ''url(#arrow-'' @ props_id props @ '')'' \<and>
   (props = props' \<longrightarrow>
      ConnectionEdge getBezierPath props = ConnectionEdge getBezierPath props') \<and>
   ConnectionEdge getBezierPath (props\<lparr>props_markerEnd := m\<rparr>) =
     ConnectionEdge getBezierPath props"
  by (simp add: ConnectionEdge_def prop_or_def obj_of_def Let_def)

theorem ConnectionEdge_marker_fill_witness:
  "marker_path_fill
     (ConnectionEdge (\<lambda>sx sy sp tx ty tp. ''M0,0'')
        (example_props (Some [''stroke'' \<mapsto> JStr ''#94a3b8'']))) = JStr ''#94a3b8'' \<and>
   marker_path_fill
     (ConnectionEdge (\<lambda>sx sy sp tx ty tp. ''M0,0'')
        (example_props (Some [''stroke'' \<mapsto> JStr []]))) = JStr ''#3b82f6'' \<and>
   marker_path_fill
     (ConnectionEdge (\<lambda>sx sy sp tx ty tp. ''M0,0'')
        (example_props (Some [''strokeWidth'' \<mapsto> JNum 4]))) = JStr ''#3b82f6'' \<and>
   marker_path_fill
     (ConnectionEdge (\<lambda>sx sy sp tx ty tp. ''M0,0'') (example_props None)) = JStr ''#3b82f6''"
proof -
  let ?g = "\<lambda>(sx::real) (sy::real) (sp::string) (tx::real) (ty::real) (tp::string). ''M0,0''"
  have a: "obj_of (props_style (example_props (Some [''stroke'' \<mapsto> JStr ''#94a3b8''])))
      ''stroke'' = Some (JStr ''#94a3b8'') \<and> ''#94a3b8'' \<noteq> []"
    by (simp add: example_props_def obj_of_def)
  have b: "obj_of (props_style (example_props (Some [''stroke'' \<mapsto> JStr []]))) ''stroke'' =
      Some (JStr [])"
    by (simp add: example_props_def obj_of_def)
  have c: "obj_of (props_style (example_props (Some [''strokeWidth'' \<mapsto> JNum 4])))
      ''stroke'' = None"
    by (simp add: example_props_def obj_of_def)
  have d: "props_style (example_props None) = None"
    by (simp add: example_props_def)
  from ConnectionEdge_marker_fill
      [of "example_props (Some [''stroke'' \<mapsto> JStr ''#94a3b8''])" "''#94a3b8''" ?g] a
  have 1: "marker_path_fill
     (ConnectionEdge ?g (example_props (Some [''stroke'' \<mapsto> JStr ''#94a3b8'']))) =
     JStr ''#94a3b8''"
    by blast
  from ConnectionEdge_marker_fill [of "example_props (Some [''stroke'' \<mapsto> JStr []])" _ ?g] b
  have 2: "marker_path_fill
     (ConnectionEdge ?g (example_props (Some [''stroke'' \<mapsto> JStr []]))) = JStr ''#3b82f6''"
    by blast
  from ConnectionEdge_marker_fill
      [of "example_props (Some [''strokeWidth'' \<mapsto> JNum 4])" _ ?g] c
  have 3: "marker_path_fill
     (ConnectionEdge ?g (example_props (Some [''strokeWidth'' \<mapsto> JNum 4]))) =
     JStr ''#3b82f6''"
    by blast
  from ConnectionEdge_marker_fill [of "example_props None" _ ?g] d
  have 4: "marker_path_fill (ConnectionEdge ?g (example_props None)) = JStr ''#3b82f6''"
    by blast
  from 1 2 3 4 show ?thesis by simp
qed

end
